theory Spec2Isabelle
  imports Complex_Main "HOL-Library.Char_ord" "HOL-Library.List_Lexorder" "HOL-Library.Multiset"
begin

section \<open>The weather dashboard of smart_weather.py\<close>

text \<open>
  The dashboard reads three SQLite tables through pandas, lets the user pick two cities
  and renders four tabs. The embedding follows the source function by function.

  Conventions of the embedding:
  \<^item> a DataFrame is the list of its rows, in frame order; \<open>df.empty\<close> is \<open>df = []\<close>
    (the column-less \<open>pd.DataFrame()\<close> returned after a failed read is \<open>[]\<close> as well:
    the source tests \<open>.empty\<close> before it touches a column of such a frame);
  \<open>df[df['city'] == c]\<close> is a \<open>filter\<close>;
  \<^item> numeric columns hold real numbers (no NULL cells), times are points on the integer
    time line, city names are strings ordered as Python orders \<open>str\<close>
    (lexicographically by character code);
  \<^item> what the SQL engine returns for each of the six fixed queries is an input: either
    the rows, or the message of the exception raised inside the \<open>try\<close> block;
  \<^item> Streamlit calls are collected, in call order, in a list of rendered elements;
    layout containers (columns, tabs) and the one-hour cache are not represented;
    pictographs and the degree sign are left out of label texts;
  \<^item> a formatted number \<open>f"{v:.1f}mm"\<close> is kept as the triple of its value, its number
    of decimals and its suffix instead of the digit string.
\<close>

subsection \<open>Tables\<close>

type_synonym timestamp = int

text \<open>The columns shared by all three tables.\<close>

record row =
  city :: string
  humidity :: real
  wind_dir :: string

text \<open>Table \<open>forecast\<close>.\<close>

record forecast_row = row +
  datetime :: timestamp
  temp_c :: real
  wind_kph :: real
  precip_mm :: real
  aqi :: real
  condition :: string

text \<open>Table \<open>current\<close>: the columns of \<open>forecast\<close> and \<open>created_at\<close>.\<close>

record current_row = forecast_row +
  created_at :: timestamp

text \<open>Table \<open>meteostat\<close>.\<close>

record meteostat_row = row +
  date :: timestamp
  temperature :: real
  precipitation :: real
  snow :: real
  wind_speed :: real
  cloud_cover :: real
  sunshine_duration :: real

text \<open>The result of \<open>pd.read_sql_query\<close> and of the statements that follow it inside the
  same \<open>try\<close>: \<open>Inl\<close> carries the text of the exception.\<close>

type_synonym 'a query_result = "string + 'a"

record sources =
  cities_current :: "string list query_result"
  cities_forecast :: "string list query_result"
  cities_meteostat :: "string list query_result"
  rows_current :: "current_row list query_result"
  rows_forecast :: "forecast_row list query_result"
  rows_meteostat :: "meteostat_row list query_result"

subsection \<open>pandas\<close>

datatype py_error = IndexError

text \<open>A float result of an aggregation: \<open>NaN\<close> is what \<open>mean\<close>, \<open>max\<close> and \<open>min\<close> give on
  an empty column.\<close>

datatype num = NaN | Num real

fun num_sub :: "num \<Rightarrow> num \<Rightarrow> num" where
  "num_sub (Num a) (Num b) = Num (a - b)"
| "num_sub _ _ = NaN"

definition mean :: "real list \<Rightarrow> num" where
  "mean xs = (if xs = [] then NaN else Num (sum_list xs / real (length xs)))"

definition sum_series :: "real list \<Rightarrow> num" where
  "sum_series xs = Num (sum_list xs)"

definition max_series :: "real list \<Rightarrow> num" where
  "max_series xs = (if xs = [] then NaN else Num (Max (set xs)))"

definition min_series :: "real list \<Rightarrow> num" where
  "min_series xs = (if xs = [] then NaN else Num (Min (set xs)))"

text \<open>\<open>df[df['city'] == c]\<close>\<close>

definition filter_city :: "string \<Rightarrow> ('a row_scheme) list \<Rightarrow> ('a row_scheme) list" where
  "filter_city c df = filter (\<lambda>r. city r = c) df"

text \<open>\<open>df.iloc[0]\<close> raises IndexError on a frame without rows.\<close>

fun iloc0 :: "'a list \<Rightarrow> py_error + 'a" where
  "iloc0 [] = Inl IndexError"
| "iloc0 (r # rs) = Inr r"

text \<open>\<open>df.groupby('city').tail(1)\<close>: the last row of every group, the rows staying in
  frame order. A row is kept when no later row has its city.\<close>

fun groupby_city_tail1 :: "('a row_scheme) list \<Rightarrow> ('a row_scheme) list" where
  "groupby_city_tail1 [] = []"
| "groupby_city_tail1 (r # rs) =
     (if city r \<in> set (map city rs) then groupby_city_tail1 rs else r # groupby_city_tail1 rs)"

text \<open>\<open>df.sort_values('created_at')\<close> is called with pandas' default sort kind, which is
  not guaranteed stable, so the order it gives to rows of equal \<open>created_at\<close> is not
  fixed by the source. The frame sort is therefore a parameter \<open>srt\<close> of the embedding;
  \<open>sorts_by_created_at\<close> says what every sort kind guarantees. \<open>stable_sort_values\<close> is
  the instance that keeps equal rows in their order.\<close>

definition sorts_by_created_at :: "(current_row list \<Rightarrow> current_row list) \<Rightarrow> bool" where
  "sorts_by_created_at srt =
     (\<forall>df. sorted (map created_at (srt df)) \<and> mset (srt df) = mset df)"

definition stable_sort_values :: "current_row list \<Rightarrow> current_row list" where
  "stable_sort_values df = sort_key created_at df"

subsection \<open>Rendered elements\<close>

datatype fmt = Fmt num nat string

datatype trace =
    Scatter string "timestamp list" "real list"
  | Bar string "timestamp list" "real list"
  | Scatterpolar string "real list" "string list"

record summary_row =
  City :: string
  Avg_Temperature :: fmt
  Max_Temperature :: fmt
  Min_Temperature :: fmt
  Total_Precipitation :: fmt
  Avg_Humidity :: fmt
  Avg_Wind_Speed :: fmt

datatype ui =
    Title string
  | Markdown string
  | Header string
  | Subheader string
  | Warning string
  | Error string
  | Info string
  | Caption_last_updated timestamp
  | Metric string fmt "fmt option"
  | Plotly_chart "trace list"
  | Dataframe_current "current_row list"
  | Dataframe_summary "summary_row list"
  | Sidebar_success_found nat
  | Sidebar_header string
  | Sidebar_error string
  | Sidebar_selectbox string "string list"

subsection \<open>Database loading functions\<close>

text \<open>One \<open>try\<close> block of \<open>get_available_cities\<close>: the cities of the query are added to
  the set, or a warning is shown and the set stays as it is.\<close>

definition try_cities ::
  "string \<Rightarrow> string list query_result \<Rightarrow> ui list \<times> string set \<Rightarrow> ui list \<times> string set" where
  "try_cities db q st =
     (case q of
        Inr col \<Rightarrow> (fst st, snd st \<union> set col)
      | Inl e \<Rightarrow> (fst st @ [Warning (''Could not load cities from '' @ db @ '' database: '' @ e)],
                  snd st))"

definition fallback_cities :: "string list" where
  "fallback_cities = [''Nairobi'', ''Sydney'', ''New York'', ''London'']"

definition get_available_cities :: "sources \<Rightarrow> ui list \<times> string list" where
  "get_available_cities src =
     (let st = try_cities ''current'' (cities_current src) ([], {});
          st = try_cities ''forecast'' (cities_forecast src) st;
          st = try_cities ''meteostat'' (cities_meteostat src) st;
          cities = snd st
      in (fst st, if cities \<noteq> {} then sorted_list_of_set cities else fallback_cities))"

definition load_current_weather ::
  "(current_row list \<Rightarrow> current_row list) \<Rightarrow> current_row list query_result
     \<Rightarrow> ui list \<times> current_row list" where
  "load_current_weather srt q =
     (case q of
        Inr df \<Rightarrow> ([], groupby_city_tail1 (srt df))
      | Inl e \<Rightarrow> ([Error (''Error loading current weather: '' @ e)], []))"

definition load_forecast_data :: "forecast_row list query_result \<Rightarrow> ui list \<times> forecast_row list" where
  "load_forecast_data q =
     (case q of
        Inr df \<Rightarrow> ([], df)
      | Inl e \<Rightarrow> ([Error (''Error loading forecast data: '' @ e)], []))"

definition load_meteostat_data :: "meteostat_row list query_result \<Rightarrow> ui list \<times> meteostat_row list" where
  "load_meteostat_data q =
     (case q of
        Inr df \<Rightarrow> ([], df)
      | Inl e \<Rightarrow> ([Error (''Error loading historical data: '' @ e)], []))"

subsection \<open>Cards and the radar chart\<close>

definition display_current_weather_card :: "string \<Rightarrow> current_row \<Rightarrow> ui list" where
  "display_current_weather_card c data =
     [Markdown (''### '' @ c),
      Metric ''Temperature'' (Fmt (Num (temp_c data)) 1 ''C'') None,
      Metric ''Humidity'' (Fmt (Num (humidity data)) 0 ''%'') None,
      Metric ''Wind Speed'' (Fmt (Num (wind_kph data)) 1 '' km/h'') None,
      Metric ''Precipitation'' (Fmt (Num (precip_mm data)) 1 '' mm'') None,
      Metric ''AQI'' (Fmt (Num (aqi data)) 0 '''') None,
      Info (condition data),
      Caption_last_updated (datetime data)]"

definition categories :: "string list" where
  "categories = [''Temperature'', ''Humidity'', ''Wind Speed'', ''Precipitation'', ''AQI'']"

text \<open>The list the source builds twice, as \<open>city1_values\<close> and \<open>city2_values\<close>.\<close>

definition city_values :: "current_row \<Rightarrow> real list" where
  "city_values data =
     [temp_c data * 2, humidity data, wind_kph data * 2, precip_mm data * 10, aqi data]"

definition create_comparison_chart ::
  "string \<Rightarrow> string \<Rightarrow> current_row list \<Rightarrow> py_error + ui list" where
  "create_comparison_chart city1 city2 current_df =
     (case iloc0 (filter_city city1 current_df) of
        Inl e \<Rightarrow> Inl e
      | Inr city1_data \<Rightarrow>
          (case iloc0 (filter_city city2 current_df) of
             Inl e \<Rightarrow> Inl e
           | Inr city2_data \<Rightarrow>
               Inr [Plotly_chart
                      [Scatterpolar city1 (city_values city1_data) categories,
                       Scatterpolar city2 (city_values city2_data) categories]]))"

subsection \<open>The tabs of main\<close>

text \<open>A block of \<open>main\<close> gives the elements it rendered and the exception that left it,
  if one did.\<close>

type_synonym outcome = "ui list \<times> py_error option"

definition current_card :: "string \<Rightarrow> current_row list \<Rightarrow> ui list" where
  "current_card c current_df =
     (case filter_city c current_df of
        [] \<Rightarrow> [Warning (''No current data for '' @ c)]
      | data # _ \<Rightarrow> display_current_weather_card c data)"

definition tab1 :: "string \<Rightarrow> string \<Rightarrow> current_row list \<Rightarrow> outcome" where
  "tab1 city1 city2 current_df =
     (let hd1 = [Header (''Current Weather: '' @ city1 @ '' vs '' @ city2)] in
      if current_df \<noteq> [] then
        (let out = hd1 @ current_card city1 current_df @ current_card city2 current_df
                     @ [Markdown ''---'', Subheader ''Quick Comparison'']
         in case create_comparison_chart city1 city2 current_df of
              Inl e \<Rightarrow> (out, Some e)
            | Inr chart \<Rightarrow> (out @ chart, None))
      else (hd1 @ [Warning ''No current weather data available''], None))"

definition forecast_charts ::
  "string \<Rightarrow> string \<Rightarrow> forecast_row list \<Rightarrow> forecast_row list \<Rightarrow> ui list" where
  "forecast_charts city1 city2 forecast_city1 forecast_city2 =
     [Subheader ''Temperature Forecast (Next 24 Hours)'',
      Plotly_chart
        [Scatter city1 (map datetime forecast_city1) (map temp_c forecast_city1),
         Scatter city2 (map datetime forecast_city2) (map temp_c forecast_city2)],
      Subheader ''Precipitation Forecast'',
      Plotly_chart
        [Bar city1 (map datetime forecast_city1) (map precip_mm forecast_city1),
         Bar city2 (map datetime forecast_city2) (map precip_mm forecast_city2)],
      Subheader ''Humidity Forecast'',
      Plotly_chart
        [Scatter city1 (map datetime forecast_city1) (map humidity forecast_city1),
         Scatter city2 (map datetime forecast_city2) (map humidity forecast_city2)]]"

definition tab2 :: "string \<Rightarrow> string \<Rightarrow> forecast_row list \<Rightarrow> ui list" where
  "tab2 city1 city2 forecast_df =
     Header (''Weather Forecast: '' @ city1 @ '' vs '' @ city2) #
     (if forecast_df \<noteq> [] then
        (let forecast_city1 = filter_city city1 forecast_df;
             forecast_city2 = filter_city city2 forecast_df
         in if forecast_city1 \<noteq> [] \<and> forecast_city2 \<noteq> []
            then forecast_charts city1 city2 forecast_city1 forecast_city2
            else [Warning ''Insufficient forecast data for comparison''])
      else [Warning ''No forecast data available''])"

text \<open>One column of the year-to-date averages: the value of the first city, then the
  value of the second city with the difference second minus first as its delta.\<close>

definition metric_pair ::
  "string \<Rightarrow> string \<Rightarrow> string \<Rightarrow> nat \<Rightarrow> string \<Rightarrow> num \<Rightarrow> num \<Rightarrow> ui list" where
  "metric_pair city1 city2 label digits unit v1 v2 =
     [Metric (city1 @ label) (Fmt v1 digits unit) None,
      Metric (city2 @ label) (Fmt v2 digits unit) (Some (Fmt (num_sub v2 v1) digits unit))]"

definition historical_section ::
  "string \<Rightarrow> string \<Rightarrow> meteostat_row list \<Rightarrow> meteostat_row list \<Rightarrow> ui list" where
  "historical_section city1 city2 hist_city1 hist_city2 =
     (let avg_temp1 = mean (map temperature hist_city1);
          avg_temp2 = mean (map temperature hist_city2);
          avg_precip1 = sum_series (map precipitation hist_city1);
          avg_precip2 = sum_series (map precipitation hist_city2);
          avg_humidity1 = mean (map humidity hist_city1);
          avg_humidity2 = mean (map humidity hist_city2);
          avg_wind1 = mean (map wind_speed hist_city1);
          avg_wind2 = mean (map wind_speed hist_city2)
      in [Subheader ''2025 Year-to-Date Averages'']
         @ metric_pair city1 city2 '' Avg Temp'' 1 ''C'' avg_temp1 avg_temp2
         @ metric_pair city1 city2 '' Total Precip'' 0 ''mm'' avg_precip1 avg_precip2
         @ metric_pair city1 city2 '' Avg Humidity'' 0 ''%'' avg_humidity1 avg_humidity2
         @ metric_pair city1 city2 '' Avg Wind'' 1 ''km/h'' avg_wind1 avg_wind2
         @ [Subheader ''Temperature Trend (2025 YTD)'',
            Plotly_chart
              [Scatter city1 (map date hist_city1) (map temperature hist_city1),
               Scatter city2 (map date hist_city2) (map temperature hist_city2)],
            Subheader ''Precipitation Comparison'',
            Plotly_chart
              [Bar city1 (map date hist_city1) (map precipitation hist_city1),
               Bar city2 (map date hist_city2) (map precipitation hist_city2)]])"

definition tab3 :: "string \<Rightarrow> string \<Rightarrow> meteostat_row list \<Rightarrow> ui list" where
  "tab3 city1 city2 historical_df =
     Header (''Historical Weather Analysis: '' @ city1 @ '' vs '' @ city2) #
     (if historical_df \<noteq> [] then
        (let hist_city1 = filter_city city1 historical_df;
             hist_city2 = filter_city city2 historical_df
         in if hist_city1 \<noteq> [] \<and> hist_city2 \<noteq> []
            then historical_section city1 city2 hist_city1 hist_city2
            else [Warning ''Insufficient historical data for comparison''])
      else [Warning ''No historical data available''])"

text \<open>The dictionary appended to \<open>summary_data\<close> for one city.\<close>

definition summary_of :: "string \<Rightarrow> meteostat_row list \<Rightarrow> summary_row" where
  "summary_of c city_hist =
     \<lparr>City = c,
      Avg_Temperature = Fmt (mean (map temperature city_hist)) 2 '''',
      Max_Temperature = Fmt (max_series (map temperature city_hist)) 2 '''',
      Min_Temperature = Fmt (min_series (map temperature city_hist)) 2 '''',
      Total_Precipitation = Fmt (sum_series (map precipitation city_hist)) 2 '''',
      Avg_Humidity = Fmt (mean (map humidity city_hist)) 2 '''',
      Avg_Wind_Speed = Fmt (mean (map wind_speed city_hist)) 2 ''''\<rparr>"

text \<open>The loop \<open>for city in [city1, city2]\<close> that fills \<open>summary_data\<close>.\<close>

fun summary_data :: "string list \<Rightarrow> meteostat_row list \<Rightarrow> summary_row list" where
  "summary_data [] historical_df = []"
| "summary_data (c # cs) historical_df =
     (let city_hist = filter_city c historical_df
      in (if city_hist \<noteq> [] then [summary_of c city_hist] else [])
         @ summary_data cs historical_df)"

definition current_table :: "string \<Rightarrow> current_row list \<Rightarrow> ui list" where
  "current_table c current_df =
     Subheader (c @ '' Current Weather'') #
     (if current_df \<noteq> [] then
        (let city_current = filter_city c current_df
         in if city_current \<noteq> [] then [Dataframe_current city_current] else [])
      else [])"

definition tab4 ::
  "string \<Rightarrow> string \<Rightarrow> current_row list \<Rightarrow> meteostat_row list \<Rightarrow> ui list" where
  "tab4 city1 city2 current_df historical_df =
     [Header ''Detailed Metrics & Data Tables'']
     @ current_table city1 current_df
     @ current_table city2 current_df
     @ [Markdown ''---'', Subheader ''Historical Statistics Summary'']
     @ (if historical_df \<noteq> [] then
          (let rows = summary_data [city1, city2] historical_df
           in if rows \<noteq> [] then [Dataframe_summary rows] else [])
        else [])"

subsection \<open>main\<close>

text \<open>\<open>st.sidebar.selectbox(label, options, index=0)\<close> on a non-empty option list: the
  user's choice is the position \<open>i\<close> of an option; a position outside the list falls
  back to the default position 0.\<close>

definition selectbox :: "string list \<Rightarrow> nat \<Rightarrow> string" where
  "selectbox options i = options ! (if i < length options then i else 0)"

definition available_cities_for_city2 :: "string list \<Rightarrow> string \<Rightarrow> string list" where
  "available_cities_for_city2 CITIES city1 = [c \<leftarrow> CITIES. c \<noteq> city1]"

definition main ::
  "(current_row list \<Rightarrow> current_row list) \<Rightarrow> sources \<Rightarrow> nat \<Rightarrow> nat \<Rightarrow> outcome" where
  "main srt src i1 i2 =
     (let out = [Title ''Multi-City Weather Comparison Dashboard'', Markdown ''---''];
          (w, CITIES) = get_available_cities src;
          out = out @ w
      in if CITIES = [] then
           (out @ [Error ''No cities found in databases. Please ensure data has been collected.''],
            None)
         else
           (let out = out @ [Sidebar_success_found (length CITIES)];
                (w1, current_df) = load_current_weather srt (rows_current src);
                (w2, forecast_df) = load_forecast_data (rows_forecast src);
                (w3, historical_df) = load_meteostat_data (rows_meteostat src);
                out = out @ w1 @ w2 @ w3
                        @ [Sidebar_header ''Select Cities to Compare'',
                           Sidebar_selectbox ''City 1'' CITIES];
                city1 = selectbox CITIES i1;
                candidates = available_cities_for_city2 CITIES city1
            in if candidates = [] then
                 (out @ [Sidebar_error ''Need at least 2 cities in database for comparison''],
                  None)
               else
                 (let out = out @ [Sidebar_selectbox ''City 2'' candidates];
                      city2 = selectbox candidates i2
                  in case tab1 city1 city2 current_df of
                       (o1, Some e) \<Rightarrow> (out @ o1, Some e)
                     | (o1, None) \<Rightarrow>
                         (out @ o1 @ tab2 city1 city2 forecast_df
                            @ tab3 city1 city2 historical_df
                            @ tab4 city1 city2 current_df historical_df,
                          None))))"


subsection \<open>Notions of the specification\<close>

text \<open>What one source contributes to the city set, a failed source contributing
  nothing, and the union over the three sources.\<close>

definition source_cities :: "string list query_result \<Rightarrow> string set" where
  "source_cities q = (case q of Inr col \<Rightarrow> set col | Inl e \<Rightarrow> {})"

definition union_cities :: "sources \<Rightarrow> string set" where
  "union_cities src =
     source_cities (cities_current src) \<union> source_cities (cities_forecast src)
       \<union> source_cities (cities_meteostat src)"

text \<open>The arithmetic mean of a non-empty column.\<close>

definition arithmetic_mean :: "real list \<Rightarrow> real" where
  "arithmetic_mean xs = sum_list xs / real (length xs)"

subsection \<open>Sample data\<close>

text \<open>Rows and query results for the worked examples: a reading of the \<open>current\<close>
  table (city, temperature, time of insertion), a point of the \<open>forecast\<close> table and a
  day of the \<open>meteostat\<close> table.\<close>

definition reading :: "string \<Rightarrow> real \<Rightarrow> timestamp \<Rightarrow> current_row" where
  "reading c t ts =
     \<lparr>city = c, humidity = 50, wind_dir = ''N'', datetime = ts, temp_c = t, wind_kph = 10,
      precip_mm = 2, aqi = 50, condition = ''Sunny'', created_at = ts\<rparr>"

definition forecast_point :: "string \<Rightarrow> real \<Rightarrow> timestamp \<Rightarrow> forecast_row" where
  "forecast_point c t ts =
     \<lparr>city = c, humidity = 60, wind_dir = ''E'', datetime = ts, temp_c = t, wind_kph = 5,
      precip_mm = 0, aqi = 30, condition = ''Cloudy''\<rparr>"

definition day :: "string \<Rightarrow> timestamp \<Rightarrow> real \<Rightarrow> meteostat_row" where
  "day c d t =
     \<lparr>city = c, humidity = 70, wind_dir = ''W'', date = d, temperature = t, precipitation = 1,
      snow = 0, wind_speed = 12, cloud_cover = 3, sunshine_duration = 100\<rparr>"

definition empty_sources :: sources where
  "empty_sources =
     \<lparr>cities_current = Inr [], cities_forecast = Inr [], cities_meteostat = Inr [],
      rows_current = Inr [], rows_forecast = Inr [], rows_meteostat = Inr []\<rparr>"

definition two_city_sources :: sources where
  "two_city_sources =
     \<lparr>cities_current = Inr [''London''],
      cities_forecast = Inr [''Nairobi'', ''London''],
      cities_meteostat = Inl ''no such table: meteostat'',
      rows_current = Inr [reading ''London'' 11 7],
      rows_forecast = Inr [forecast_point ''London'' 9 1, forecast_point ''Nairobi'' 24 1],
      rows_meteostat = Inl ''no such table: meteostat''\<rparr>"

definition one_city_sources :: sources where
  "one_city_sources =
     \<lparr>cities_current = Inr [''Nairobi''], cities_forecast = Inr [], cities_meteostat = Inr [],
      rows_current = Inr [reading ''Nairobi'' 25 3], rows_forecast = Inr [],
      rows_meteostat = Inr []\<rparr>"

definition failed_sources :: sources where
  "failed_sources =
     \<lparr>cities_current = Inr [''London'', ''Nairobi''], cities_forecast = Inr [],
      cities_meteostat = Inr [],
      rows_current = Inl ''no such column: aqi'', rows_forecast = Inr [],
      rows_meteostat = Inr []\<rparr>"

definition six_days :: "meteostat_row list" where
  "six_days =
     [day ''London'' 1 10, day ''Nairobi'' 1 15, day ''London'' 2 20,
      day ''Nairobi'' 2 25, day ''London'' 3 30, day ''Nairobi'' 3 35]"

definition london_only_days :: "meteostat_row list" where
  "london_only_days = [day ''London'' 1 10, day ''London'' 2 20]"

definition two_city_forecast :: "forecast_row list" where
  "two_city_forecast =
     [forecast_point ''London'' 9 1, forecast_point ''Nairobi'' 24 1,
      forecast_point ''London'' 8 2]"

section \<open>Properties\<close>

subsection \<open>Latest reading per city\<close>

lemma set_tail1: "set (groupby_city_tail1 s) \<subseteq> set s"
  by (induction s) auto

lemma filter_tail1_none:
  "c \<notin> city ` set s \<Longrightarrow> filter (\<lambda>r. city r = c) (groupby_city_tail1 s) = []"
  using set_tail1 [of s] by (auto simp: filter_empty_conv)

lemma filter_tail1:
  "c \<in> city ` set s \<Longrightarrow>
     filter (\<lambda>r. city r = c) (groupby_city_tail1 s) = [last (filter (\<lambda>r. city r = c) s)]"
proof (induction s)
  case Nil
  then show ?case by simp
next
  case (Cons r rs)
  show ?case
  proof (cases "c \<in> city ` set rs")
    case True
    then have ne: "filter (\<lambda>r. city r = c) rs \<noteq> []"
      by (auto simp: filter_empty_conv)
    from True Cons.IH have "filter (\<lambda>r. city r = c) (groupby_city_tail1 rs)
        = [last (filter (\<lambda>r. city r = c) rs)]" by simp
    with True ne show ?thesis by auto
  next
    case False
    with Cons.prems have cr: "city r = c" by auto
    from False have "filter (\<lambda>r. city r = c) rs = []"
      by (auto simp: filter_empty_conv)
    moreover from False have "filter (\<lambda>r. city r = c) (groupby_city_tail1 rs) = []"
      by (rule filter_tail1_none)
    ultimately show ?thesis using cr False by auto
  qed
qed

lemma sorted_last_Max:
  fixes f :: "'a \<Rightarrow> int"
  shows "sorted (map f xs) \<Longrightarrow> xs \<noteq> [] \<Longrightarrow> f (last xs) = Max (f ` set xs)"
proof (induction xs)
  case Nil
  then show ?case by simp
next
  case (Cons x xs)
  show ?case
  proof (cases "xs = []")
    case True
    then show ?thesis by simp
  next
    case False
    with Cons have ih: "f (last xs) = Max (f ` set xs)" by simp
    from Cons.prems(1) False have "f x \<le> f (last xs)" by simp
    with ih False show ?thesis by (simp add: max_def)
  qed
qed

text \<open>
  Claim C3. For a city with at least one row in the result of the \<open>current\<close> query,
  \<open>load_current_weather\<close> keeps exactly one row of that city. It is a row of the query
  result, its \<open>created_at\<close> is the greatest \<open>created_at\<close> among the rows of the city,
  and among rows sharing that greatest value it is the one standing last in the frame
  returned by \<open>sort_values\<close> (the ordering the frame has when the groups are cut).
  This holds for every sort that orders the frame by \<open>created_at\<close>, stable or not.
\<close>

theorem latest_reading_selection:
  assumes srt: "sorts_by_created_at srt" and c: "c \<in> city ` set df"
  shows "\<exists>r. filter_city c (snd (load_current_weather srt (Inr df))) = [r]
            \<and> r \<in> set df \<and> city r = c
            \<and> created_at r = Max (created_at ` set (filter_city c df))
            \<and> r = last (filter_city c (srt df))"
proof -
  let ?s = "srt df"
  let ?r = "last (filter_city c ?s)"
  from srt have sorted: "sorted (map created_at ?s)" and perm: "mset ?s = mset df"
    by (simp_all add: sorts_by_created_at_def)
  from perm have sets: "set ?s = set df" by (rule mset_eq_setD)
  with c have c': "c \<in> city ` set ?s" by simp
  then have ne: "filter_city c ?s \<noteq> []"
    by (auto simp: filter_city_def filter_empty_conv)
  have sel: "filter_city c (snd (load_current_weather srt (Inr df))) = [?r]"
    using filter_tail1 [OF c'] by (simp add: load_current_weather_def filter_city_def)
  from ne have mem: "?r \<in> set (filter_city c ?s)" by (rule last_in_set)
  then have in_df: "?r \<in> set df" and city: "city ?r = c"
    using sets by (auto simp: filter_city_def)
  have "sorted (map created_at (filter_city c ?s))"
    unfolding filter_city_def using sorted by (rule sorted_filter)
  then have "created_at ?r = Max (created_at ` set (filter_city c ?s))"
    using ne by (rule sorted_last_Max)
  also have "set (filter_city c ?s) = set (filter_city c df)"
    using sets by (simp add: filter_city_def)
  finally have mx: "created_at ?r = Max (created_at ` set (filter_city c df))" .
  from sel in_df city mx show ?thesis by blast
qed

text \<open>Four readings, two of London sharing the greatest insertion time 7: the later of
  the two in the sorted frame is selected.\<close>

theorem latest_reading_selection_witness:
  "sorts_by_created_at stable_sort_values
   \<and> ''London'' \<in> city ` set [reading ''London'' 11 7, reading ''Nairobi'' 25 3,
                                  reading ''London'' 12 7, reading ''London'' 13 5]
   \<and> filter_city ''London'' (snd (load_current_weather stable_sort_values
        (Inr [reading ''London'' 11 7, reading ''Nairobi'' 25 3,
              reading ''London'' 12 7, reading ''London'' 13 5])))
       = [reading ''London'' 12 7]
   \<and> (\<exists>r. filter_city ''London'' (snd (load_current_weather stable_sort_values
        (Inr [reading ''London'' 11 7, reading ''Nairobi'' 25 3,
              reading ''London'' 12 7, reading ''London'' 13 5]))) = [r]
        \<and> created_at r = Max (created_at ` set (filter_city ''London''
              [reading ''London'' 11 7, reading ''Nairobi'' 25 3,
               reading ''London'' 12 7, reading ''London'' 13 5])))"
proof -
  let ?df = "[reading ''London'' 11 7, reading ''Nairobi'' 25 3,
              reading ''London'' 12 7, reading ''London'' 13 5]"
  have h1: "sorts_by_created_at stable_sort_values"
    by (simp add: sorts_by_created_at_def stable_sort_values_def)
  have h2: "''London'' \<in> city ` set ?df"
    by (simp add: reading_def)
  have ev: "filter_city ''London'' (snd (load_current_weather stable_sort_values (Inr ?df)))
              = [reading ''London'' 12 7]"
    by (simp add: load_current_weather_def stable_sort_values_def reading_def filter_city_def)
  from latest_reading_selection [OF h1 h2] h1 h2 ev show ?thesis by blast
qed

subsection \<open>Radar scaling\<close>

text \<open>
  Claim C2. The vector charted for a reading is its five metrics temperature, humidity,
  wind, precipitation and air quality multiplied componentwise by 2, 1, 2, 10 and 1;
  nothing is clamped. The reading with the values 20, 50, 10, 2, 50 gives
  40, 50, 20, 20, 50. When both cities have a row in the frame of latest readings, the
  chart carries exactly these two vectors, computed from the first row of each city.
\<close>

theorem radar_scaling:
  "city_values data =
     map2 (*) [2, 1, 2, 10, 1]
       [temp_c data, humidity data, wind_kph data, precip_mm data, aqi data]
   \<and> city_values (data\<lparr>temp_c := 20, humidity := 50, wind_kph := 10, precip_mm := 2, aqi := 50\<rparr>)
       = [40, 50, 20, 20, 50]
   \<and> (iloc0 (filter_city city1 current_df) = Inr data1
        \<and> iloc0 (filter_city city2 current_df) = Inr data2 \<longrightarrow>
      create_comparison_chart city1 city2 current_df =
        Inr [Plotly_chart
               [Scatterpolar city1
                  [temp_c data1 * 2, humidity data1 * 1, wind_kph data1 * 2,
                   precip_mm data1 * 10, aqi data1 * 1] categories,
                Scatterpolar city2
                  [temp_c data2 * 2, humidity data2 * 1, wind_kph data2 * 2,
                   precip_mm data2 * 10, aqi data2 * 1] categories]])"
  by (simp add: city_values_def create_comparison_chart_def)

text \<open>Two latest readings; the temperature 60 is charted as 120, outside the display
  window of the chart, since nothing is clamped.\<close>

theorem radar_scaling_witness:
  "iloc0 (filter_city ''London'' [reading ''London'' 20 7, reading ''Nairobi'' 60 3])
     = Inr (reading ''London'' 20 7)
   \<and> iloc0 (filter_city ''Nairobi'' [reading ''London'' 20 7, reading ''Nairobi'' 60 3])
     = Inr (reading ''Nairobi'' 60 3)
   \<and> create_comparison_chart ''London'' ''Nairobi''
        [reading ''London'' 20 7, reading ''Nairobi'' 60 3] =
        Inr [Plotly_chart
               [Scatterpolar ''London'' [40, 50, 20, 20, 50] categories,
                Scatterpolar ''Nairobi'' [120, 50, 20, 20, 50] categories]]"
proof -
  let ?df = "[reading ''London'' 20 7, reading ''Nairobi'' 60 3]"
  have i1: "iloc0 (filter_city ''London'' ?df) = Inr (reading ''London'' 20 7)"
    by (simp add: filter_city_def reading_def)
  have i2: "iloc0 (filter_city ''Nairobi'' ?df) = Inr (reading ''Nairobi'' 60 3)"
    by (simp add: filter_city_def reading_def)
  from radar_scaling [of "reading ''London'' 20 7" "''London''" ?df "reading ''London'' 20 7"
      "''Nairobi''" "reading ''Nairobi'' 60 3"] i1 i2
  have "create_comparison_chart ''London'' ''Nairobi'' ?df =
        Inr [Plotly_chart
               [Scatterpolar ''London''
                  [temp_c (reading ''London'' 20 7) * 2, humidity (reading ''London'' 20 7) * 1,
                   wind_kph (reading ''London'' 20 7) * 2,
                   precip_mm (reading ''London'' 20 7) * 10,
                   aqi (reading ''London'' 20 7) * 1] categories,
                Scatterpolar ''Nairobi''
                  [temp_c (reading ''Nairobi'' 60 3) * 2, humidity (reading ''Nairobi'' 60 3) * 1,
                   wind_kph (reading ''Nairobi'' 60 3) * 2,
                   precip_mm (reading ''Nairobi'' 60 3) * 10,
                   aqi (reading ''Nairobi'' 60 3) * 1] categories]]"
    by blast
  then have "create_comparison_chart ''London'' ''Nairobi'' ?df =
        Inr [Plotly_chart
               [Scatterpolar ''London'' [40, 50, 20, 20, 50] categories,
                Scatterpolar ''Nairobi'' [120, 50, 20, 20, 50] categories]]"
    by (simp add: reading_def)
  with i1 i2 show ?thesis by blast
qed

subsection \<open>The city registry\<close>

lemma snd_try_cities: "snd (try_cities db q st) = snd st \<union> source_cities q"
  by (cases q) (simp_all add: try_cities_def source_cities_def)

lemma finite_union_cities: "finite (union_cities src)"
  by (auto simp: union_cities_def source_cities_def split: sum.splits)

lemma get_available_cities_eq:
  "snd (get_available_cities src) =
     (if union_cities src \<noteq> {} then sorted_list_of_set (union_cities src) else fallback_cities)"
  by (simp add: get_available_cities_def Let_def snd_try_cities union_cities_def Un_assoc)

lemma distinct_fallback: "distinct fallback_cities"
  by (simp add: fallback_cities_def)

lemma distinct_cities: "distinct (snd (get_available_cities src))"
  by (simp add: get_available_cities_eq distinct_fallback)

lemma cities_nonempty: "snd (get_available_cities src) \<noteq> []"
  using finite_union_cities [of src]
  by (simp add: get_available_cities_eq fallback_cities_def)

text \<open>With no city in any source the registry returns the literal fallback list, whose
  order (Nairobi, Sydney, New York, London) is not ascending.\<close>

theorem registry_sorted_counterexample:
  "\<not> sorted (snd (get_available_cities empty_sources))"
  by (simp add: get_available_cities_def try_cities_def empty_sources_def fallback_cities_def)

text \<open>
  Claim C4, amended. The list returned by \<open>get_available_cities\<close> never repeats a city.
  When the union of the city values of the three sources is not empty, the list is
  sorted ascending and holds exactly the cities of the union. When the union is empty,
  the list is the fixed fallback Nairobi, Sydney, New York, London, in this order.
\<close>

theorem registry_city_list:
  "distinct (snd (get_available_cities src))
   \<and> (union_cities src \<noteq> {} \<longrightarrow>
        sorted (snd (get_available_cities src))
        \<and> set (snd (get_available_cities src)) = union_cities src)
   \<and> (union_cities src = {} \<longrightarrow>
        snd (get_available_cities src) = [''Nairobi'', ''Sydney'', ''New York'', ''London''])"
  using finite_union_cities [of src]
  by (simp add: distinct_cities get_available_cities_eq fallback_cities_def)

text \<open>A source set with two cities, one source failing, and the empty source set.\<close>

theorem registry_city_list_witness:
  "union_cities two_city_sources \<noteq> {}
   \<and> snd (get_available_cities two_city_sources) = [''London'', ''Nairobi'']
   \<and> sorted (snd (get_available_cities two_city_sources))
   \<and> distinct (snd (get_available_cities two_city_sources))
   \<and> union_cities empty_sources = {}
   \<and> snd (get_available_cities empty_sources) = [''Nairobi'', ''Sydney'', ''New York'', ''London'']"
proof -
  have u1: "union_cities two_city_sources \<noteq> {}"
    by (simp add: union_cities_def source_cities_def two_city_sources_def)
  have u2: "union_cities empty_sources = {}"
    by (simp add: union_cities_def source_cities_def empty_sources_def)
  have ev: "snd (get_available_cities two_city_sources) = [''London'', ''Nairobi'']"
    by code_simp
  from registry_city_list [of two_city_sources] registry_city_list [of empty_sources] u1 u2 ev
  show ?thesis by simp
qed

subsection \<open>Historical statistics\<close>

lemma mean_nonempty: "xs \<noteq> [] \<Longrightarrow> mean xs = Num (arithmetic_mean xs)"
  by (simp add: mean_def arithmetic_mean_def)

lemma summary_of_nonempty:
  "hist \<noteq> [] \<Longrightarrow>
   summary_of c hist =
     \<lparr>City = c,
      Avg_Temperature = Fmt (Num (arithmetic_mean (map temperature hist))) 2 [],
      Max_Temperature = Fmt (Num (Max (temperature ` set hist))) 2 [],
      Min_Temperature = Fmt (Num (Min (temperature ` set hist))) 2 [],
      Total_Precipitation = Fmt (Num (sum_list (map precipitation hist))) 2 [],
      Avg_Humidity = Fmt (Num (arithmetic_mean (map humidity hist))) 2 [],
      Avg_Wind_Speed = Fmt (Num (arithmetic_mean (map wind_speed hist))) 2 []\<rparr>"
  by (simp add: summary_of_def mean_nonempty max_series_def min_series_def sum_series_def)

lemma summary_data_pair:
  "summary_data [city1, city2] historical_df =
     (if filter_city city1 historical_df \<noteq> []
      then [summary_of city1 (filter_city city1 historical_df)] else [])
     @ (if filter_city city2 historical_df \<noteq> []
        then [summary_of city2 (filter_city city2 historical_df)] else [])"
  by (simp add: Let_def)

lemma summary_of_City: "City (summary_of c h) = c"
  by (simp add: summary_of_def)

lemma summary_data_rows:
  "row \<in> set (summary_data cs historical_df) \<Longrightarrow>
     \<exists>c \<in> set cs. filter_city c historical_df \<noteq> []
        \<and> row = summary_of c (filter_city c historical_df)"
  by (induction cs) (auto simp: Let_def split: if_splits)

lemma summary_of_not_NaN:
  "hist \<noteq> [] \<Longrightarrow>
     Avg_Temperature (summary_of c hist) \<noteq> Fmt NaN 2 []
     \<and> Max_Temperature (summary_of c hist) \<noteq> Fmt NaN 2 []
     \<and> Min_Temperature (summary_of c hist) \<noteq> Fmt NaN 2 []
     \<and> Total_Precipitation (summary_of c hist) \<noteq> Fmt NaN 2 []
     \<and> Avg_Humidity (summary_of c hist) \<noteq> Fmt NaN 2 []
     \<and> Avg_Wind_Speed (summary_of c hist) \<noteq> Fmt NaN 2 []"
  by (simp add: summary_of_def mean_def max_series_def min_series_def sum_series_def)

text \<open>
  Claim C5. For a selected city whose rows in the historical frame are not empty, the
  summary row of the city holds the arithmetic mean of the temperature, its maximum and
  its minimum, the sum of the precipitation, and the arithmetic means of humidity and
  wind speed, all taken over exactly the rows whose city is that city. When both
  selected cities have rows, the year-to-date averages show for each of the four
  metrics the value of the first city and the value of the second city with the delta
  second minus first.
\<close>

theorem historical_summary:
  assumes c: "c = city1 \<or> c = city2"
    and hist: "hist = [r \<leftarrow> historical_df. city r = c]"
    and ne: "hist \<noteq> []"
  shows "\<lparr>City = c,
      Avg_Temperature = Fmt (Num (arithmetic_mean (map temperature hist))) 2 [],
      Max_Temperature = Fmt (Num (Max (temperature ` set hist))) 2 [],
      Min_Temperature = Fmt (Num (Min (temperature ` set hist))) 2 [],
      Total_Precipitation = Fmt (Num (sum_list (map precipitation hist))) 2 [],
      Avg_Humidity = Fmt (Num (arithmetic_mean (map humidity hist))) 2 [],
      Avg_Wind_Speed = Fmt (Num (arithmetic_mean (map wind_speed hist))) 2 []\<rparr>
     \<in> set (summary_data [city1, city2] historical_df)
   \<and> (\<forall>h1 h2. h1 = [r \<leftarrow> historical_df. city r = city1]
         \<and> h2 = [r \<leftarrow> historical_df. city r = city2] \<and> h1 \<noteq> [] \<and> h2 \<noteq> [] \<longrightarrow>
        take 10 (tab3 city1 city2 historical_df) =
          [Header (''Historical Weather Analysis: '' @ city1 @ '' vs '' @ city2),
           Subheader ''2025 Year-to-Date Averages'',
           Metric (city1 @ '' Avg Temp'')
             (Fmt (Num (arithmetic_mean (map temperature h1))) 1 ''C'') None,
           Metric (city2 @ '' Avg Temp'')
             (Fmt (Num (arithmetic_mean (map temperature h2))) 1 ''C'')
             (Some (Fmt (Num (arithmetic_mean (map temperature h2)
                              - arithmetic_mean (map temperature h1))) 1 ''C'')),
           Metric (city1 @ '' Total Precip'')
             (Fmt (Num (sum_list (map precipitation h1))) 0 ''mm'') None,
           Metric (city2 @ '' Total Precip'')
             (Fmt (Num (sum_list (map precipitation h2))) 0 ''mm'')
             (Some (Fmt (Num (sum_list (map precipitation h2)
                              - sum_list (map precipitation h1))) 0 ''mm'')),
           Metric (city1 @ '' Avg Humidity'')
             (Fmt (Num (arithmetic_mean (map humidity h1))) 0 ''%'') None,
           Metric (city2 @ '' Avg Humidity'')
             (Fmt (Num (arithmetic_mean (map humidity h2))) 0 ''%'')
             (Some (Fmt (Num (arithmetic_mean (map humidity h2)
                              - arithmetic_mean (map humidity h1))) 0 ''%'')),
           Metric (city1 @ '' Avg Wind'')
             (Fmt (Num (arithmetic_mean (map wind_speed h1))) 1 ''km/h'') None,
           Metric (city2 @ '' Avg Wind'')
             (Fmt (Num (arithmetic_mean (map wind_speed h2))) 1 ''km/h'')
             (Some (Fmt (Num (arithmetic_mean (map wind_speed h2)
                              - arithmetic_mean (map wind_speed h1))) 1 ''km/h''))])"
proof -
  from hist ne have fc: "filter_city c historical_df = hist"
    by (simp add: filter_city_def)
  have "summary_of c hist \<in> set (summary_data [city1, city2] historical_df)"
    unfolding summary_data_pair using c fc ne by auto
  then have row: "\<lparr>City = c,
      Avg_Temperature = Fmt (Num (arithmetic_mean (map temperature hist))) 2 [],
      Max_Temperature = Fmt (Num (Max (temperature ` set hist))) 2 [],
      Min_Temperature = Fmt (Num (Min (temperature ` set hist))) 2 [],
      Total_Precipitation = Fmt (Num (sum_list (map precipitation hist))) 2 [],
      Avg_Humidity = Fmt (Num (arithmetic_mean (map humidity hist))) 2 [],
      Avg_Wind_Speed = Fmt (Num (arithmetic_mean (map wind_speed hist))) 2 []\<rparr>
     \<in> set (summary_data [city1, city2] historical_df)"
    unfolding summary_of_nonempty [OF ne] .
  have nonempty: "historical_df \<noteq> []" using hist ne by auto
  show ?thesis
    using row nonempty
    by (simp add: tab3_def filter_city_def historical_section_def metric_pair_def Let_def
        mean_nonempty sum_series_def)
qed

text \<open>London with temperatures 10, 20, 30 and Nairobi with 15, 25, 35: the means are 20
  and 25 and the delta shown with Nairobi is 5.\<close>

theorem historical_summary_witness:
  "map temperature [r \<leftarrow> six_days. city r = ''London''] = [10, 20, 30]
   \<and> map temperature [r \<leftarrow> six_days. city r = ''Nairobi''] = [15, 25, 35]
   \<and> \<lparr>City = ''London'',
      Avg_Temperature = Fmt (Num 20) 2 [],
      Max_Temperature = Fmt (Num 30) 2 [],
      Min_Temperature = Fmt (Num 10) 2 [],
      Total_Precipitation = Fmt (Num 3) 2 [],
      Avg_Humidity = Fmt (Num 70) 2 [],
      Avg_Wind_Speed = Fmt (Num 12) 2 []\<rparr>
     \<in> set (summary_data [''London'', ''Nairobi''] six_days)
   \<and> take 4 (tab3 ''London'' ''Nairobi'' six_days) =
       [Header ''Historical Weather Analysis: London vs Nairobi'',
        Subheader ''2025 Year-to-Date Averages'',
        Metric ''London Avg Temp'' (Fmt (Num 20) 1 ''C'') None,
        Metric ''Nairobi Avg Temp'' (Fmt (Num 25) 1 ''C'') (Some (Fmt (Num 5) 1 ''C''))]"
proof -
  let ?h1 = "[r \<leftarrow> six_days. city r = ''London'']"
  let ?h2 = "[r \<leftarrow> six_days. city r = ''Nairobi'']"
  have h1: "?h1 = [day ''London'' 1 10, day ''London'' 2 20, day ''London'' 3 30]"
    by (simp add: six_days_def day_def)
  have h2: "?h2 = [day ''Nairobi'' 1 15, day ''Nairobi'' 2 25, day ''Nairobi'' 3 35]"
    by (simp add: six_days_def day_def)
  have ne1: "?h1 \<noteq> []" and ne2: "?h2 \<noteq> []"
    by (simp_all add: h1 h2)
  have c: "''London'' = ''London'' \<or> ''London'' = ''Nairobi''" by simp
  note inst = historical_summary [of "''London''" "''London''" "''Nairobi''" ?h1 six_days, OF c refl ne1]
  from inst have row: "\<lparr>City = ''London'',
      Avg_Temperature = Fmt (Num (arithmetic_mean (map temperature ?h1))) 2 [],
      Max_Temperature = Fmt (Num (Max (temperature ` set ?h1))) 2 [],
      Min_Temperature = Fmt (Num (Min (temperature ` set ?h1))) 2 [],
      Total_Precipitation = Fmt (Num (sum_list (map precipitation ?h1))) 2 [],
      Avg_Humidity = Fmt (Num (arithmetic_mean (map humidity ?h1))) 2 [],
      Avg_Wind_Speed = Fmt (Num (arithmetic_mean (map wind_speed ?h1))) 2 []\<rparr>
     \<in> set (summary_data [''London'', ''Nairobi''] six_days)"
    by (rule conjunct1)
  from inst ne1 ne2 have t3: "take 10 (tab3 ''London'' ''Nairobi'' six_days) =
          [Header (''Historical Weather Analysis: '' @ ''London'' @ '' vs '' @ ''Nairobi''),
           Subheader ''2025 Year-to-Date Averages'',
           Metric (''London'' @ '' Avg Temp'')
             (Fmt (Num (arithmetic_mean (map temperature ?h1))) 1 ''C'') None,
           Metric (''Nairobi'' @ '' Avg Temp'')
             (Fmt (Num (arithmetic_mean (map temperature ?h2))) 1 ''C'')
             (Some (Fmt (Num (arithmetic_mean (map temperature ?h2)
                              - arithmetic_mean (map temperature ?h1))) 1 ''C'')),
           Metric (''London'' @ '' Total Precip'')
             (Fmt (Num (sum_list (map precipitation ?h1))) 0 ''mm'') None,
           Metric (''Nairobi'' @ '' Total Precip'')
             (Fmt (Num (sum_list (map precipitation ?h2))) 0 ''mm'')
             (Some (Fmt (Num (sum_list (map precipitation ?h2)
                              - sum_list (map precipitation ?h1))) 0 ''mm'')),
           Metric (''London'' @ '' Avg Humidity'')
             (Fmt (Num (arithmetic_mean (map humidity ?h1))) 0 ''%'') None,
           Metric (''Nairobi'' @ '' Avg Humidity'')
             (Fmt (Num (arithmetic_mean (map humidity ?h2))) 0 ''%'')
             (Some (Fmt (Num (arithmetic_mean (map humidity ?h2)
                              - arithmetic_mean (map humidity ?h1))) 0 ''%'')),
           Metric (''London'' @ '' Avg Wind'')
             (Fmt (Num (arithmetic_mean (map wind_speed ?h1))) 1 ''km/h'') None,
           Metric (''Nairobi'' @ '' Avg Wind'')
             (Fmt (Num (arithmetic_mean (map wind_speed ?h2))) 1 ''km/h'')
             (Some (Fmt (Num (arithmetic_mean (map wind_speed ?h2)
                              - arithmetic_mean (map wind_speed ?h1))) 1 ''km/h''))]"
    by blast
  have "take 4 (take 10 (tab3 ''London'' ''Nairobi'' six_days)) =
       [Header ''Historical Weather Analysis: London vs Nairobi'',
        Subheader ''2025 Year-to-Date Averages'',
        Metric ''London Avg Temp'' (Fmt (Num 20) 1 ''C'') None,
        Metric ''Nairobi Avg Temp'' (Fmt (Num 25) 1 ''C'') (Some (Fmt (Num 5) 1 ''C''))]"
    unfolding t3 by (simp add: h1 h2 day_def arithmetic_mean_def)
  then have t4: "take 4 (tab3 ''London'' ''Nairobi'' six_days) =
       [Header ''Historical Weather Analysis: London vs Nairobi'',
        Subheader ''2025 Year-to-Date Averages'',
        Metric ''London Avg Temp'' (Fmt (Num 20) 1 ''C'') None,
        Metric ''Nairobi Avg Temp'' (Fmt (Num 25) 1 ''C'') (Some (Fmt (Num 5) 1 ''C''))]"
    by simp
  from row have row': "\<lparr>City = ''London'',
      Avg_Temperature = Fmt (Num 20) 2 [],
      Max_Temperature = Fmt (Num 30) 2 [],
      Min_Temperature = Fmt (Num 10) 2 [],
      Total_Precipitation = Fmt (Num 3) 2 [],
      Avg_Humidity = Fmt (Num 70) 2 [],
      Avg_Wind_Speed = Fmt (Num 12) 2 []\<rparr>
     \<in> set (summary_data [''London'', ''Nairobi''] six_days)"
    unfolding h1 by (simp add: day_def arithmetic_mean_def)
  show ?thesis
    using row' t4 by (simp add: h1 h2 day_def)
qed

text \<open>
  Claim C6. When the historical rows of one of the two selected cities are empty, the
  historical analysis tab shows its header and one notice and nothing else: no metric
  and no chart. No summary row is ever produced for a city without historical rows,
  and no value of a produced summary row is NaN.
\<close>

theorem historical_comparison_skipped:
  "(filter_city city1 historical_df = [] \<or> filter_city city2 historical_df = [] \<longrightarrow>
      tab3 city1 city2 historical_df =
        [Header (''Historical Weather Analysis: '' @ city1 @ '' vs '' @ city2),
         Warning (if historical_df = [] then ''No historical data available''
                  else ''Insufficient historical data for comparison'')])
   \<and> (\<forall>row \<in> set (summary_data [city1, city2] historical_df).
        filter_city (City row) historical_df \<noteq> []
        \<and> Avg_Temperature row \<noteq> Fmt NaN 2 [] \<and> Max_Temperature row \<noteq> Fmt NaN 2 []
        \<and> Min_Temperature row \<noteq> Fmt NaN 2 [] \<and> Total_Precipitation row \<noteq> Fmt NaN 2 []
        \<and> Avg_Humidity row \<noteq> Fmt NaN 2 [] \<and> Avg_Wind_Speed row \<noteq> Fmt NaN 2 [])
   \<and> (filter_city c historical_df = [] \<longrightarrow>
        (\<forall>row \<in> set (summary_data [city1, city2] historical_df). City row \<noteq> c))"
proof -
  have a: "filter_city city1 historical_df = [] \<or> filter_city city2 historical_df = [] \<longrightarrow>
      tab3 city1 city2 historical_df =
        [Header (''Historical Weather Analysis: '' @ city1 @ '' vs '' @ city2),
         Warning (if historical_df = [] then ''No historical data available''
                  else ''Insufficient historical data for comparison'')]"
    by (auto simp: tab3_def Let_def)
  have b: "filter_city (City row) historical_df \<noteq> []
        \<and> Avg_Temperature row \<noteq> Fmt NaN 2 [] \<and> Max_Temperature row \<noteq> Fmt NaN 2 []
        \<and> Min_Temperature row \<noteq> Fmt NaN 2 [] \<and> Total_Precipitation row \<noteq> Fmt NaN 2 []
        \<and> Avg_Humidity row \<noteq> Fmt NaN 2 [] \<and> Avg_Wind_Speed row \<noteq> Fmt NaN 2 []"
    if "row \<in> set (summary_data [city1, city2] historical_df)" for row
  proof -
    from summary_data_rows [OF that] obtain k where
      ne: "filter_city k historical_df \<noteq> []"
      and eq: "row = summary_of k (filter_city k historical_df)"
      by blast
    from eq have "City row = k" by (simp add: summary_of_City)
    with ne eq summary_of_not_NaN [OF ne, of k] show ?thesis by simp
  qed
  have c: "filter_city c historical_df = [] \<longrightarrow>
        (\<forall>row \<in> set (summary_data [city1, city2] historical_df). City row \<noteq> c)"
  proof (intro impI ballI)
    fix row
    assume e: "filter_city c historical_df = []"
      and r: "row \<in> set (summary_data [city1, city2] historical_df)"
    from summary_data_rows [OF r] obtain k where
      ne: "filter_city k historical_df \<noteq> []"
      and eq: "row = summary_of k (filter_city k historical_df)"
      by blast
    from eq have "City row = k" by (simp add: summary_of_City)
    with ne e show "City row \<noteq> c" by auto
  qed
  from a b c show ?thesis by blast
qed

text \<open>Historical rows for London only, Nairobi selected as second city.\<close>

theorem historical_comparison_skipped_witness:
  "filter_city ''Nairobi'' london_only_days = []
   \<and> tab3 ''London'' ''Nairobi'' london_only_days =
       [Header ''Historical Weather Analysis: London vs Nairobi'',
        Warning ''Insufficient historical data for comparison'']
   \<and> map City (summary_data [''London'', ''Nairobi''] london_only_days) = [''London'']"
proof -
  have e: "filter_city ''Nairobi'' london_only_days = []"
    by (simp add: filter_city_def london_only_days_def day_def)
  have n: "london_only_days \<noteq> []"
    by (simp add: london_only_days_def)
  have s: "map City (summary_data [''London'', ''Nairobi''] london_only_days) = [''London'']"
    by (simp add: filter_city_def london_only_days_def day_def Let_def summary_of_City)
  from historical_comparison_skipped [of "''London''" london_only_days "''Nairobi''" "''Nairobi''"]
    e n
  have "tab3 ''London'' ''Nairobi'' london_only_days =
       [Header ''Historical Weather Analysis: London vs Nairobi'',
        Warning ''Insufficient historical data for comparison'']"
    by simp
  with e s show ?thesis by blast
qed

text \<open>
  Claim C10. In the detailed metrics tab the summary row of a selected city is included
  exactly when that city has historical rows, whatever the other city has, and the
  summary table is rendered exactly when one of the two cities contributes a row; the
  table rendered is the list of these rows.
\<close>

theorem summary_rows_per_city:
  "summary_data [city1, city2] historical_df =
     (if filter_city city1 historical_df \<noteq> []
      then [summary_of city1 (filter_city city1 historical_df)] else [])
     @ (if filter_city city2 historical_df \<noteq> []
        then [summary_of city2 (filter_city city2 historical_df)] else [])
   \<and> ((\<exists>rows. Dataframe_summary rows \<in> set (tab4 city1 city2 current_df historical_df))
        \<longleftrightarrow> filter_city city1 historical_df \<noteq> [] \<or> filter_city city2 historical_df \<noteq> [])
   \<and> (\<forall>rows. Dataframe_summary rows \<in> set (tab4 city1 city2 current_df historical_df)
        \<longrightarrow> rows = summary_data [city1, city2] historical_df)"
proof -
  have emp: "historical_df = [] \<Longrightarrow> filter_city c historical_df = []" for c
    by (simp add: filter_city_def)
  have mem: "Dataframe_summary rows \<in> set (tab4 city1 city2 current_df historical_df)
      \<longleftrightarrow> historical_df \<noteq> [] \<and> summary_data [city1, city2] historical_df \<noteq> []
          \<and> rows = summary_data [city1, city2] historical_df" for rows
    unfolding tab4_def current_table_def Let_def by auto
  have ne: "summary_data [city1, city2] historical_df \<noteq> []
      \<longleftrightarrow> filter_city city1 historical_df \<noteq> [] \<or> filter_city city2 historical_df \<noteq> []"
    unfolding summary_data_pair by simp
  have "(\<exists>rows. Dataframe_summary rows \<in> set (tab4 city1 city2 current_df historical_df))
        \<longleftrightarrow> filter_city city1 historical_df \<noteq> [] \<or> filter_city city2 historical_df \<noteq> []"
    unfolding mem using ne emp by auto
  moreover have "\<forall>rows. Dataframe_summary rows \<in> set (tab4 city1 city2 current_df historical_df)
        \<longrightarrow> rows = summary_data [city1, city2] historical_df"
    unfolding mem by simp
  ultimately show ?thesis
    using summary_data_pair [of city1 city2 historical_df] by blast
qed

text \<open>London has historical rows and Nairobi has none: the table has the row of London,
  whichever of the two is the first city.\<close>

theorem summary_rows_per_city_witness:
  "filter_city ''London'' london_only_days \<noteq> []
   \<and> filter_city ''Nairobi'' london_only_days = []
   \<and> summary_data [''London'', ''Nairobi''] london_only_days =
       [summary_of ''London'' london_only_days]
   \<and> summary_data [''Nairobi'', ''London''] london_only_days =
       [summary_of ''London'' london_only_days]
   \<and> Dataframe_summary [summary_of ''London'' london_only_days]
       \<in> set (tab4 ''London'' ''Nairobi'' [] london_only_days)"
proof -
  have l: "filter_city ''London'' london_only_days = london_only_days"
    by (simp add: filter_city_def london_only_days_def day_def)
  have n: "filter_city ''Nairobi'' london_only_days = []"
    by (simp add: filter_city_def london_only_days_def day_def)
  have ne: "london_only_days \<noteq> []"
    by (simp add: london_only_days_def)
  note a = summary_rows_per_city [of "''London''" "''Nairobi''" london_only_days "[]"]
  note b = summary_rows_per_city [of "''Nairobi''" "''London''" london_only_days "[]"]
  from a l n ne have s1: "summary_data [''London'', ''Nairobi''] london_only_days =
       [summary_of ''London'' london_only_days]" by simp
  from b l n ne have s2: "summary_data [''Nairobi'', ''London''] london_only_days =
       [summary_of ''London'' london_only_days]" by simp
  from a l ne obtain rows where
    r: "Dataframe_summary rows \<in> set (tab4 ''London'' ''Nairobi'' [] london_only_days)"
    by auto
  with a have "rows = summary_data [''London'', ''Nairobi''] london_only_days" by blast
  with r s1 have "Dataframe_summary [summary_of ''London'' london_only_days]
       \<in> set (tab4 ''London'' ''Nairobi'' [] london_only_days)" by simp
  with l n ne s1 s2 show ?thesis by simp
qed

subsection \<open>Forecast comparison\<close>

text \<open>
  Claim C7. \<open>load_forecast_data\<close> hands on the rows of the query as they are. When the
  forecast rows of one of the two selected cities are empty, the forecast tab shows its
  header and one notice and no chart. When both are non-empty, every chart trace is the
  column of the rows of its city in frame order, nothing resampled and nothing filled
  in.
\<close>

theorem forecast_both_or_nothing:
  "snd (load_forecast_data (Inr df)) = df
   \<and> (filter_city city1 forecast_df = [] \<or> filter_city city2 forecast_df = [] \<longrightarrow>
        tab2 city1 city2 forecast_df =
          [Header (''Weather Forecast: '' @ city1 @ '' vs '' @ city2),
           Warning (if forecast_df = [] then ''No forecast data available''
                    else ''Insufficient forecast data for comparison'')])
   \<and> (\<forall>f1 f2. f1 = [r \<leftarrow> forecast_df. city r = city1]
         \<and> f2 = [r \<leftarrow> forecast_df. city r = city2] \<and> f1 \<noteq> [] \<and> f2 \<noteq> [] \<longrightarrow>
        tab2 city1 city2 forecast_df =
          [Header (''Weather Forecast: '' @ city1 @ '' vs '' @ city2),
           Subheader ''Temperature Forecast (Next 24 Hours)'',
           Plotly_chart
             [Scatter city1 (map datetime f1) (map temp_c f1),
              Scatter city2 (map datetime f2) (map temp_c f2)],
           Subheader ''Precipitation Forecast'',
           Plotly_chart
             [Bar city1 (map datetime f1) (map precip_mm f1),
              Bar city2 (map datetime f2) (map precip_mm f2)],
           Subheader ''Humidity Forecast'',
           Plotly_chart
             [Scatter city1 (map datetime f1) (map humidity f1),
              Scatter city2 (map datetime f2) (map humidity f2)]])"
proof -
  have a: "snd (load_forecast_data (Inr df)) = df"
    by (simp add: load_forecast_data_def)
  have b: "filter_city city1 forecast_df = [] \<or> filter_city city2 forecast_df = [] \<longrightarrow>
        tab2 city1 city2 forecast_df =
          [Header (''Weather Forecast: '' @ city1 @ '' vs '' @ city2),
           Warning (if forecast_df = [] then ''No forecast data available''
                    else ''Insufficient forecast data for comparison'')]"
    by (auto simp: tab2_def Let_def)
  have c: "tab2 city1 city2 forecast_df =
          Header (''Weather Forecast: '' @ city1 @ '' vs '' @ city2) #
          forecast_charts city1 city2 [r \<leftarrow> forecast_df. city r = city1]
            [r \<leftarrow> forecast_df. city r = city2]"
    if "[r \<leftarrow> forecast_df. city r = city1] \<noteq> []" "[r \<leftarrow> forecast_df. city r = city2] \<noteq> []"
  proof -
    from that(1) have "forecast_df \<noteq> []" by auto
    with that show ?thesis by (simp add: tab2_def Let_def filter_city_def)
  qed
  show ?thesis
    using a b c by (simp add: forecast_charts_def)
qed

text \<open>A forecast with two points for London and one for Nairobi, compared first with a
  city that has no point and then with each other.\<close>

theorem forecast_both_or_nothing_witness:
  "filter_city ''Paris'' two_city_forecast = []
   \<and> tab2 ''London'' ''Paris'' two_city_forecast =
       [Header ''Weather Forecast: London vs Paris'',
        Warning ''Insufficient forecast data for comparison'']
   \<and> tab2 ''London'' ''Nairobi'' two_city_forecast =
       [Header ''Weather Forecast: London vs Nairobi'',
        Subheader ''Temperature Forecast (Next 24 Hours)'',
        Plotly_chart [Scatter ''London'' [1, 2] [9, 8], Scatter ''Nairobi'' [1] [24]],
        Subheader ''Precipitation Forecast'',
        Plotly_chart [Bar ''London'' [1, 2] [0, 0], Bar ''Nairobi'' [1] [0]],
        Subheader ''Humidity Forecast'',
        Plotly_chart [Scatter ''London'' [1, 2] [60, 60], Scatter ''Nairobi'' [1] [60]]]"
proof -
  let ?f1 = "[r \<leftarrow> two_city_forecast. city r = ''London'']"
  let ?f2 = "[r \<leftarrow> two_city_forecast. city r = ''Nairobi'']"
  have e: "filter_city ''Paris'' two_city_forecast = []"
    by (simp add: filter_city_def two_city_forecast_def forecast_point_def)
  have n: "two_city_forecast \<noteq> []"
    by (simp add: two_city_forecast_def)
  have f1: "?f1 = [forecast_point ''London'' 9 1, forecast_point ''London'' 8 2]"
    by (simp add: two_city_forecast_def forecast_point_def)
  have f2: "?f2 = [forecast_point ''Nairobi'' 24 1]"
    by (simp add: two_city_forecast_def forecast_point_def)
  have ne: "?f1 \<noteq> []" "?f2 \<noteq> []"
    by (simp_all add: f1 f2)
  from forecast_both_or_nothing [of two_city_forecast "''London''" two_city_forecast "''Paris''"]
    e n
  have skipped: "tab2 ''London'' ''Paris'' two_city_forecast =
       [Header ''Weather Forecast: London vs Paris'',
        Warning ''Insufficient forecast data for comparison'']"
    by simp
  from forecast_both_or_nothing [of two_city_forecast "''London''" two_city_forecast "''Nairobi''"]
    ne
  have "tab2 ''London'' ''Nairobi'' two_city_forecast =
          [Header (''Weather Forecast: '' @ ''London'' @ '' vs '' @ ''Nairobi''),
           Subheader ''Temperature Forecast (Next 24 Hours)'',
           Plotly_chart
             [Scatter ''London'' (map datetime ?f1) (map temp_c ?f1),
              Scatter ''Nairobi'' (map datetime ?f2) (map temp_c ?f2)],
           Subheader ''Precipitation Forecast'',
           Plotly_chart
             [Bar ''London'' (map datetime ?f1) (map precip_mm ?f1),
              Bar ''Nairobi'' (map datetime ?f2) (map precip_mm ?f2)],
           Subheader ''Humidity Forecast'',
           Plotly_chart
             [Scatter ''London'' (map datetime ?f1) (map humidity ?f1),
              Scatter ''Nairobi'' (map datetime ?f2) (map humidity ?f2)]]"
    by blast
  then have shown: "tab2 ''London'' ''Nairobi'' two_city_forecast =
       [Header ''Weather Forecast: London vs Nairobi'',
        Subheader ''Temperature Forecast (Next 24 Hours)'',
        Plotly_chart [Scatter ''London'' [1, 2] [9, 8], Scatter ''Nairobi'' [1] [24]],
        Subheader ''Precipitation Forecast'',
        Plotly_chart [Bar ''London'' [1, 2] [0, 0], Bar ''Nairobi'' [1] [0]],
        Subheader ''Humidity Forecast'',
        Plotly_chart [Scatter ''London'' [1, 2] [60, 60], Scatter ''Nairobi'' [1] [60]]]"
    unfolding f1 f2 by (simp add: forecast_point_def)
  from e skipped shown show ?thesis by blast
qed

subsection \<open>City selection\<close>

lemma selectbox_mem: "options \<noteq> [] \<Longrightarrow> selectbox options i \<in> set options"
  by (simp add: selectbox_def)

lemma candidates_set:
  "set (available_cities_for_city2 CITIES city1) = set CITIES - {city1}"
  by (auto simp: available_cities_for_city2_def)

lemma candidates_empty_iff:
  assumes d: "distinct CITIES" and m: "city1 \<in> set CITIES"
  shows "available_cities_for_city2 CITIES city1 = [] \<longleftrightarrow> length CITIES < 2"
proof
  assume "available_cities_for_city2 CITIES city1 = []"
  then have "set CITIES - {city1} = {}"
    using candidates_set [of CITIES city1] by simp
  with m have "set CITIES = {city1}" by auto
  then have "card (set CITIES) = 1" by simp
  with d have "length CITIES = 1" by (simp add: distinct_card)
  then show "length CITIES < 2" by simp
next
  assume "length CITIES < 2"
  with m have "CITIES = [city1]"
    by (cases CITIES) (auto simp: less_Suc_eq)
  then show "available_cities_for_city2 CITIES city1 = []"
    by (simp add: available_cities_for_city2_def)
qed

lemma main_rejected:
  assumes "available_cities_for_city2 (snd (get_available_cities src))
             (selectbox (snd (get_available_cities src)) i1) = []"
  shows "main srt src i1 i2 =
     ([Title ''Multi-City Weather Comparison Dashboard'', Markdown ''---'']
        @ fst (get_available_cities src)
        @ [Sidebar_success_found (length (snd (get_available_cities src)))]
        @ fst (load_current_weather srt (rows_current src))
        @ fst (load_forecast_data (rows_forecast src))
        @ fst (load_meteostat_data (rows_meteostat src))
        @ [Sidebar_header ''Select Cities to Compare'',
           Sidebar_selectbox ''City 1'' (snd (get_available_cities src)),
           Sidebar_error ''Need at least 2 cities in database for comparison''],
      None)"
  using assms cities_nonempty [of src]
  by (simp add: main_def Let_def split_beta)

lemma main_offered:
  assumes "available_cities_for_city2 (snd (get_available_cities src))
             (selectbox (snd (get_available_cities src)) i1) \<noteq> []"
  shows "Sidebar_selectbox ''City 2''
           (available_cities_for_city2 (snd (get_available_cities src))
              (selectbox (snd (get_available_cities src)) i1))
         \<in> set (fst (main srt src i1 i2))"
  using assms cities_nonempty [of src]
  by (simp add: main_def Let_def split_beta split: option.splits)

text \<open>
  Claim C8. For the list returned by the registry and any choice of the first city, the
  first city is in the list and the options offered for the second city are the cities
  of the list without the first city. With two or more cities in the list the options
  are not empty and are offered in the second select box. With fewer than two the
  options are empty, and \<open>main\<close> ends after the sidebar error message, without an
  exception and without rendering a tab.
\<close>

theorem second_city_candidates:
  assumes C: "CITIES = snd (get_available_cities src)"
    and c1: "city1 = selectbox CITIES i1"
  shows "city1 \<in> set CITIES
   \<and> set (available_cities_for_city2 CITIES city1) = set CITIES - {city1}
   \<and> (2 \<le> length CITIES \<longrightarrow>
        available_cities_for_city2 CITIES city1 \<noteq> []
        \<and> Sidebar_selectbox ''City 2'' (available_cities_for_city2 CITIES city1)
            \<in> set (fst (main srt src i1 i2)))
   \<and> (length CITIES < 2 \<longrightarrow>
        available_cities_for_city2 CITIES city1 = []
        \<and> main srt src i1 i2 =
            ([Title ''Multi-City Weather Comparison Dashboard'', Markdown ''---'']
               @ fst (get_available_cities src)
               @ [Sidebar_success_found (length CITIES)]
               @ fst (load_current_weather srt (rows_current src))
               @ fst (load_forecast_data (rows_forecast src))
               @ fst (load_meteostat_data (rows_meteostat src))
               @ [Sidebar_header ''Select Cities to Compare'',
                  Sidebar_selectbox ''City 1'' CITIES,
                  Sidebar_error ''Need at least 2 cities in database for comparison''],
             None))"
proof -
  have ne: "CITIES \<noteq> []" and d: "distinct CITIES"
    unfolding C by (rule cities_nonempty, rule distinct_cities)
  from ne have m: "city1 \<in> set CITIES"
    unfolding c1 by (rule selectbox_mem)
  note iff = candidates_empty_iff [OF d m]
  have big: "available_cities_for_city2 CITIES city1 \<noteq> []
        \<and> Sidebar_selectbox ''City 2'' (available_cities_for_city2 CITIES city1)
            \<in> set (fst (main srt src i1 i2))" if "2 \<le> length CITIES"
  proof -
    from that iff have n: "available_cities_for_city2 CITIES city1 \<noteq> []" by simp
    then show ?thesis
      using main_offered [of src i1 srt i2] unfolding C c1 by simp
  qed
  have small: "available_cities_for_city2 CITIES city1 = []
        \<and> main srt src i1 i2 =
            ([Title ''Multi-City Weather Comparison Dashboard'', Markdown ''---'']
               @ fst (get_available_cities src)
               @ [Sidebar_success_found (length CITIES)]
               @ fst (load_current_weather srt (rows_current src))
               @ fst (load_forecast_data (rows_forecast src))
               @ fst (load_meteostat_data (rows_meteostat src))
               @ [Sidebar_header ''Select Cities to Compare'',
                  Sidebar_selectbox ''City 1'' CITIES,
                  Sidebar_error ''Need at least 2 cities in database for comparison''],
             None)" if "length CITIES < 2"
  proof -
    from that iff have e: "available_cities_for_city2 CITIES city1 = []" by simp
    then show ?thesis
      using main_rejected [of src i1 srt i2] unfolding C c1 by simp
  qed
  from m candidates_set [of CITIES city1] big small show ?thesis by blast
qed

text \<open>Sources that know only Nairobi, and sources that know London and Nairobi.\<close>

theorem second_city_candidates_witness:
  "snd (get_available_cities one_city_sources) = [''Nairobi'']
   \<and> selectbox [''Nairobi''] 0 = ''Nairobi''
   \<and> available_cities_for_city2 [''Nairobi''] ''Nairobi'' = []
   \<and> main stable_sort_values one_city_sources 0 0 =
       ([Title ''Multi-City Weather Comparison Dashboard'', Markdown ''---'',
         Sidebar_success_found 1,
         Sidebar_header ''Select Cities to Compare'',
         Sidebar_selectbox ''City 1'' [''Nairobi''],
         Sidebar_error ''Need at least 2 cities in database for comparison''],
        None)
   \<and> snd (get_available_cities two_city_sources) = [''London'', ''Nairobi'']
   \<and> selectbox [''London'', ''Nairobi''] 1 = ''Nairobi''
   \<and> available_cities_for_city2 [''London'', ''Nairobi''] ''Nairobi'' = [''London'']
   \<and> Sidebar_selectbox ''City 2'' [''London'']
       \<in> set (fst (main stable_sort_values two_city_sources 1 0))"
proof -
  have l1: "snd (get_available_cities one_city_sources) = [''Nairobi'']"
    by code_simp
  have w1: "fst (get_available_cities one_city_sources) = []"
    by code_simp
  have s1: "selectbox [''Nairobi''] 0 = ''Nairobi''"
    by (simp add: selectbox_def)
  have r1: "rows_current one_city_sources = Inr [reading ''Nairobi'' 25 3]"
    "rows_forecast one_city_sources = Inr []" "rows_meteostat one_city_sources = Inr []"
    by (simp_all add: one_city_sources_def)
  have l2: "snd (get_available_cities two_city_sources) = [''London'', ''Nairobi'']"
    by code_simp
  have s2: "selectbox [''London'', ''Nairobi''] 1 = ''Nairobi''"
    by (simp add: selectbox_def)
  have a2: "available_cities_for_city2 [''London'', ''Nairobi''] ''Nairobi'' = [''London'']"
    by (simp add: available_cities_for_city2_def)
  from second_city_candidates [OF l1 [symmetric] s1 [symmetric], of stable_sort_values 0]
  have one: "available_cities_for_city2 [''Nairobi''] ''Nairobi'' = []
     \<and> main stable_sort_values one_city_sources 0 0 =
       ([Title ''Multi-City Weather Comparison Dashboard'', Markdown ''---'',
         Sidebar_success_found 1,
         Sidebar_header ''Select Cities to Compare'',
         Sidebar_selectbox ''City 1'' [''Nairobi''],
         Sidebar_error ''Need at least 2 cities in database for comparison''],
        None)"
    by (simp add: w1 r1 load_current_weather_def load_forecast_data_def
        load_meteostat_data_def)
  from second_city_candidates [OF l2 [symmetric] s2 [symmetric], of stable_sort_values 0]
  have two: "Sidebar_selectbox ''City 2'' [''London'']
       \<in> set (fst (main stable_sort_values two_city_sources 1 0))"
    by (simp add: a2)
  from l1 s1 one l2 s2 a2 two show ?thesis by blast
qed

subsection \<open>Failed reads\<close>

lemma tab1_empty: "tab1 city1 city2 [] =
   ([Header (''Current Weather: '' @ city1 @ '' vs '' @ city2),
     Warning ''No current weather data available''], None)"
  by (simp add: tab1_def)

lemma main_current_failed:
  assumes "rows_current src = Inl e"
  shows "snd (main srt src i1 i2) = None
     \<and> Error (''Error loading current weather: '' @ e) \<in> set (fst (main srt src i1 i2))"
  using assms cities_nonempty [of src]
  by (simp add: main_def Let_def split_beta load_current_weather_def tab1_empty)

text \<open>
  Claim C9. A read that fails in one of the three loading functions is caught: the
  function returns the empty frame together with one message element (rendered with
  \<open>st.error\<close>, which displays the message and returns). A source without rows gives
  the empty frame and no message. After a failed read of the current table \<open>main\<close>
  runs to its end without an exception and the message is among its elements.
\<close>

theorem adapter_read_failure:
  "load_current_weather srt (Inl e) = ([Error (''Error loading current weather: '' @ e)], [])
   \<and> load_forecast_data (Inl e) = ([Error (''Error loading forecast data: '' @ e)], [])
   \<and> load_meteostat_data (Inl e) = ([Error (''Error loading historical data: '' @ e)], [])
   \<and> (sorts_by_created_at srt \<longrightarrow> load_current_weather srt (Inr []) = ([], []))
   \<and> load_forecast_data (Inr []) = ([], [])
   \<and> load_meteostat_data (Inr []) = ([], [])
   \<and> (rows_current src = Inl e \<longrightarrow>
        snd (main srt src i1 i2) = None
        \<and> Error (''Error loading current weather: '' @ e) \<in> set (fst (main srt src i1 i2)))"
proof -
  have "srt [] = []" if "sorts_by_created_at srt"
  proof -
    from that have "mset (srt []) = mset []"
      unfolding sorts_by_created_at_def by blast
    then show ?thesis by simp
  qed
  then show ?thesis
    using main_current_failed [of src e srt i1 i2]
    by (simp add: load_current_weather_def load_forecast_data_def load_meteostat_data_def)
qed

text \<open>The query of the current table fails on a missing column.\<close>

theorem adapter_read_failure_witness:
  "sorts_by_created_at stable_sort_values
   \<and> load_current_weather stable_sort_values (Inr []) = ([], [])
   \<and> rows_current failed_sources = Inl ''no such column: aqi''
   \<and> snd (main stable_sort_values failed_sources 0 0) = None
   \<and> Error ''Error loading current weather: no such column: aqi''
       \<in> set (fst (main stable_sort_values failed_sources 0 0))"
proof -
  have h: "sorts_by_created_at stable_sort_values"
    by (simp add: sorts_by_created_at_def stable_sort_values_def)
  have r: "rows_current failed_sources = Inl ''no such column: aqi''"
    by (simp add: failed_sources_def)
  from adapter_read_failure [of stable_sort_values "''no such column: aqi''" failed_sources 0 0]
    h r
  show ?thesis by simp
qed

subsection \<open>A selected city without a current reading\<close>

text \<open>
  Claim C1. The claim says that a selected city without rows in a non-empty current
  frame has an empty section, that the radar comparison is skipped for it and that no
  exception leaves \<open>main\<close>. The cards are guarded in this way, but
  \<open>create_comparison_chart\<close> is called without the guard and takes \<open>iloc[0]\<close> of the
  empty selection. With a current reading for London only and Nairobi selected as
  second city, \<open>main\<close> renders the card of London and the notice for Nairobi and then
  ends with IndexError; the three other tabs are not rendered.
\<close>

theorem missing_current_city_raises:
  "snd (get_available_cities two_city_sources) = [''London'', ''Nairobi'']
   \<and> snd (load_current_weather stable_sort_values (rows_current two_city_sources))
       = [reading ''London'' 11 7]
   \<and> filter_city ''Nairobi'' [reading ''London'' 11 7] = []
   \<and> main stable_sort_values two_city_sources 0 0 =
       ([Title ''Multi-City Weather Comparison Dashboard'', Markdown ''---'',
         Warning ''Could not load cities from meteostat database: no such table: meteostat'',
         Sidebar_success_found 2,
         Error ''Error loading historical data: no such table: meteostat'',
         Sidebar_header ''Select Cities to Compare'',
         Sidebar_selectbox ''City 1'' [''London'', ''Nairobi''],
         Sidebar_selectbox ''City 2'' [''Nairobi''],
         Header ''Current Weather: London vs Nairobi'', Markdown ''### London'',
         Metric ''Temperature'' (Fmt (Num 11) 1 ''C'') None,
         Metric ''Humidity'' (Fmt (Num 50) 0 ''%'') None,
         Metric ''Wind Speed'' (Fmt (Num 10) 1 '' km/h'') None,
         Metric ''Precipitation'' (Fmt (Num 2) 1 '' mm'') None,
         Metric ''AQI'' (Fmt (Num 50) 0 []) None, Info ''Sunny'',
         Caption_last_updated 7, Warning ''No current data for Nairobi'',
         Markdown ''---'', Subheader ''Quick Comparison''],
        Some IndexError)"
  by code_simp

text \<open>The same for every non-empty current frame in which one of the two selected
  cities has no row.\<close>

lemma tab1_raises:
  assumes "current_df \<noteq> []"
    and "filter_city city1 current_df = [] \<or> filter_city city2 current_df = []"
  shows "snd (tab1 city1 city2 current_df) = Some IndexError"
  using assms
  by (auto simp: tab1_def create_comparison_chart_def Let_def split: sum.splits list.splits)
    (metis iloc0.simps(1) Inl_inject Inr_not_Inl iloc0.elims)+

end
